theory Spec2Isabelle
  imports Main "HOL-Library.Word" "HOL-Library.Sublist"
begin

section \<open>The DBHub client (node-dbhub, \<^verbatim>\<open>src/index.js\<close>)\<close>

text \<open>
  The client is one JavaScript class, \<^verbatim>\<open>DBHub\<close>: a constructor, the endpoint table
  \<^verbatim>\<open>get_endpoints\<close>, the dispatcher \<^verbatim>\<open>make_request\<close> and seven methods that shape their
  parameters and call the dispatcher. The host supplies \<^verbatim>\<open>fetch\<close>, \<^verbatim>\<open>FormData\<close>,
  \<^verbatim>\<open>Response.json\<close> and \<^verbatim>\<open>btoa\<close>.

  Text that the client only passes on (keys, names, URLs, messages) is a \<open>string\<close>. The
  SQL text is a list of UTF-16 code units, because \<^verbatim>\<open>btoa\<close> looks at every code unit.
\<close>

subsection \<open>Values of the host\<close>

type_synonym js_string = "16 word list"

text \<open>
  A JSON value as \<^verbatim>\<open>Response.json\<close> resolves to. The number type is a parameter: the
  client never computes with a number, it can only print one in a template literal, and
  the host's printing of numbers is a parameter as well (\<open>number_to_string\<close> below).
  An object is the list of its own properties, in order.
\<close>

datatype 'n json =
    JNull
  | JBool bool
  | JNum 'n
  | JStr string
  | JArr "'n json list"
  | JObj "(string \<times> 'n json) list"

text \<open>
  An error object made by the host (the rejection of \<^verbatim>\<open>fetch\<close> or of
  \<^verbatim>\<open>Response.json\<close>): its \<^verbatim>\<open>name\<close>, its \<^verbatim>\<open>message\<close>, and its \<^verbatim>\<open>cause\<close> property when it
  has one.
\<close>

datatype host_error = HostError (host_name: string) (host_message: string) (host_cause: "host_error option")

text \<open>
  What a call can throw (a rejected promise of an \<^verbatim>\<open>async\<close> method is a throw at its
  \<^verbatim>\<open>await\<close>):
  \<^item> \<open>JsError m c\<close>: \<^verbatim>\<open>new Error(m, options)\<close> made by the client, \<open>c\<close> its \<^verbatim>\<open>cause\<close>
    property when the constructor installed one. All three \<^verbatim>\<open>throw\<close> statements of the
    source make a plain \<^verbatim>\<open>Error\<close>; the class has no error subclasses;
  \<^item> \<open>DestructureTypeError\<close>: the engine's \<^verbatim>\<open>TypeError\<close> of \<^verbatim>\<open>const {error} = null\<close>;
  \<^item> \<open>ToPrimitiveTypeError\<close>: the engine's \<^verbatim>\<open>TypeError\<close> of a template literal that prints
    an object which cannot be converted to a primitive value;
  \<^item> \<open>InvalidCharacterError\<close>: the \<^verbatim>\<open>DOMException\<close> of \<^verbatim>\<open>btoa\<close>;
  \<^item> \<open>Rejection e\<close>: the host's error \<open>e\<close>, passed on as it is.
\<close>

datatype exn =
    JsError (exn_message: string) (exn_cause: "host_error option")
  | DestructureTypeError
  | ToPrimitiveTypeError
  | InvalidCharacterError
  | Rejection host_error

text \<open>A parameter value of the catalog: a string or a boolean (\<^verbatim>\<open>live\<close>).\<close>

datatype js_scalar = Str string | Boolean bool

text \<open>\<^verbatim>\<open>FormData.append(name, value)\<close> stores the value converted to a string.\<close>

fun form_string :: "js_scalar \<Rightarrow> string" where
  "form_string (Str s) = s"
| "form_string (Boolean b) = (if b then ''true'' else ''false'')"

text \<open>
  A \<^verbatim>\<open>FormData\<close> is the list of its entries in the order of the \<^verbatim>\<open>append\<close> calls; \<^verbatim>\<open>append\<close>
  never replaces an entry. \<^verbatim>\<open>FormData.get(name)\<close> is the value of the first entry of
  that name, \<^verbatim>\<open>FormData.getAll(name)\<close> the values of all entries of that name.
\<close>

type_synonym form_data = "(string \<times> string) list"

definition form_append :: "form_data \<Rightarrow> string \<Rightarrow> js_scalar \<Rightarrow> form_data" where
  "form_append body name v = body @ [(name, form_string v)]"

definition form_get :: "form_data \<Rightarrow> string \<Rightarrow> string option" where
  "form_get body name = map_of body name"

definition form_get_all :: "form_data \<Rightarrow> string \<Rightarrow> string list" where
  "form_get_all body name = map snd (filter (\<lambda>e. fst e = name) body)"

record request =
  req_url :: string
  req_method :: string
  req_body :: form_data

text \<open>
  A response: its status and what \<^verbatim>\<open>response.json()\<close> settles to, the parsed body or
  the parser's error when the body is not JSON.
\<close>

record 'n response =
  status :: nat
  json :: "host_error + 'n json"

text \<open>\<^verbatim>\<open>Response.ok\<close> of the Fetch standard: the status is in the range 200 to 299.\<close>

definition ok :: "'n response \<Rightarrow> bool" where
  "ok r = (200 \<le> status r \<and> status r \<le> 299)"

datatype 'n fetch_result = Rejected host_error | Resolved "'n response"

text \<open>The host a call runs on: the network behind \<^verbatim>\<open>fetch\<close> and the printing of numbers.\<close>

record 'n env =
  fetch :: "request \<Rightarrow> 'n fetch_result"
  number_to_string :: "'n \<Rightarrow> string"

subsection \<open>Template literals\<close>

text \<open>The decimal digits of a natural number: \<^verbatim>\<open>`${version}`\<close>, \<^verbatim>\<open>`${response.status}`\<close>.\<close>

definition digit_char :: "nat \<Rightarrow> char" where
  "digit_char d = ''0123456789'' ! (d mod 10)"

fun string_of_nat :: "nat \<Rightarrow> string" where
  "string_of_nat n =
     (if n < 10 then [digit_char n] else string_of_nat (n div 10) @ [digit_char (n mod 10)])"

declare string_of_nat.simps [simp del]

text \<open>
  \<^verbatim>\<open>ToString\<close> of a JSON value, as a template literal applies it.
  \<^item> An object is converted by its \<^verbatim>\<open>toString\<close> method, then by \<^verbatim>\<open>valueOf\<close>. A parsed
    object without an own property \<^verbatim>\<open>toString\<close> inherits \<^verbatim>\<open>Object.prototype.toString\<close> and
    prints \<^verbatim>\<open>[object Object]\<close>. With an own property \<^verbatim>\<open>toString\<close> (a JSON value, never a
    function) that method is not callable, \<^verbatim>\<open>valueOf\<close> is not callable either or returns
    the object itself, and the conversion throws a \<^verbatim>\<open>TypeError\<close>.
  \<^item> An array prints by \<^verbatim>\<open>Array.prototype.join\<close>: its elements in order, separated by
    commas, a \<^verbatim>\<open>null\<close> element printing empty and every other element by \<^verbatim>\<open>ToString\<close>,
    which may throw.
\<close>

fun js_to_string :: "('n \<Rightarrow> string) \<Rightarrow> 'n json \<Rightarrow> exn + string"
  and join_elements :: "('n \<Rightarrow> string) \<Rightarrow> 'n json list \<Rightarrow> exn + string" where
  "js_to_string f JNull = Inr ''null''"
| "js_to_string f (JBool b) = Inr (if b then ''true'' else ''false'')"
| "js_to_string f (JNum n) = Inr (f n)"
| "js_to_string f (JStr s) = Inr s"
| "js_to_string f (JArr xs) = join_elements f xs"
| "js_to_string f (JObj kvs) =
     (if ''toString'' \<in> set (map fst kvs) then Inl ToPrimitiveTypeError
      else Inr ''[object Object]'')"
| "join_elements f [] = Inr []"
| "join_elements f (x # xs) =
     (case (if x = JNull then Inr [] else js_to_string f x) of
        Inl e \<Rightarrow> Inl e
      | Inr s \<Rightarrow>
          if xs = [] then Inr s
          else (case join_elements f xs of
                  Inl e \<Rightarrow> Inl e
                | Inr t \<Rightarrow> Inr (s @ '','' @ t)))"

text \<open>\<^verbatim>\<open>`${v}`\<close> where \<open>v\<close> may be \<^verbatim>\<open>undefined\<close> (\<open>None\<close>).\<close>

definition template_value :: "('n \<Rightarrow> string) \<Rightarrow> 'n json option \<Rightarrow> exn + string" where
  "template_value f v = (case v of None \<Rightarrow> Inr ''undefined'' | Some j \<Rightarrow> js_to_string f j)"

text \<open>
  \<^verbatim>\<open>const {error} = v\<close>: \<^verbatim>\<open>null\<close> cannot be destructured; an object gives its property
  \<^verbatim>\<open>error\<close> or \<^verbatim>\<open>undefined\<close>; every other JSON value has no such property.
\<close>

fun destructure_error :: "'n json \<Rightarrow> exn + 'n json option" where
  "destructure_error JNull = Inl DestructureTypeError"
| "destructure_error (JObj kvs) = Inr (map_of kvs ''error'')"
| "destructure_error v = Inr None"

subsection \<open>\<^verbatim>\<open>btoa\<close>\<close>

text \<open>
  \<^verbatim>\<open>btoa(data)\<close> of the HTML standard: it throws an \<^verbatim>\<open>InvalidCharacterError\<close> when a
  code unit of \<open>data\<close> is above \<^verbatim>\<open>0xFF\<close>; otherwise every code unit is one byte and the
  result is the base64 encoding (RFC 4648, with padding) of these bytes.
\<close>

definition base64_alphabet :: string where
  "base64_alphabet = ''ABCDEFGHIJKLMNOPQRSTUVWXYZabcdefghijklmnopqrstuvwxyz0123456789+/''"

definition base64_digit :: "nat \<Rightarrow> char" where
  "base64_digit n = base64_alphabet ! (n mod 64)"

fun base64 :: "nat list \<Rightarrow> string" where
  "base64 [] = []"
| "base64 [a] =
     [base64_digit (a div 4), base64_digit ((a mod 4) * 16), CHR ''='', CHR ''='']"
| "base64 [a, b] =
     [base64_digit (a div 4), base64_digit ((a mod 4) * 16 + b div 16),
      base64_digit ((b mod 16) * 4), CHR ''='']"
| "base64 (a # b # c # bs) =
     [base64_digit (a div 4), base64_digit ((a mod 4) * 16 + b div 16),
      base64_digit ((b mod 16) * 4 + c div 64), base64_digit (c mod 64)] @ base64 bs"

definition btoa :: "js_string \<Rightarrow> exn + string" where
  "btoa data =
     (if list_all (\<lambda>u. u \<le> 0xFF) data then Inr (base64 (map unat data))
      else Inl InvalidCharacterError)"

text \<open>The code points of a string: a high surrogate followed by a low one is one code point.\<close>

fun code_points :: "js_string \<Rightarrow> nat list" where
  "code_points [] = []"
| "code_points [u] = [unat u]"
| "code_points (u # v # us) =
     (if 0xD800 \<le> u \<and> u \<le> 0xDBFF \<and> 0xDC00 \<le> v \<and> v \<le> 0xDFFF
      then (0x10000 + (unat u - 0xD800) * 0x400 + (unat v - 0xDC00)) # code_points us
      else unat u # code_points (v # us))"

text \<open>An ASCII string as a JavaScript string: one code unit per character.\<close>

definition js_of_string :: "string \<Rightarrow> js_string" where
  "js_of_string s = map (\<lambda>c. of_nat (of_char c)) s"

subsection \<open>The class \<^verbatim>\<open>DBHub\<close>\<close>

text \<open>The fields of an instance. The endpoint table is the object literal, in its order.\<close>

record handle =
  base_url :: string
  endpoints :: "(string \<times> string) list"
  api_key :: string

text \<open>
  What a method call leaves: the instance after the call, the calls of \<^verbatim>\<open>fetch\<close> it
  made, in order, and the value it returned or threw.
\<close>

record 'n outcome =
  this_after :: handle
  requests :: "request list"
  result :: "exn + 'n json"

text \<open>What \<^verbatim>\<open>new DBHub(api_key)\<close> leaves: the calls of \<^verbatim>\<open>fetch\<close> and the instance or the throw.\<close>

record construction =
  new_requests :: "request list"
  new_result :: "exn + handle"

text \<open>
  \<^verbatim>\<open>get_endpoints\<close> of \<^verbatim>\<open>src/index.js\<close>. \<open>endpoints_of\<close> is its object literal, over the
  local constant \<^verbatim>\<open>version\<close>.
\<close>

definition endpoints_of :: "nat \<Rightarrow> (string \<times> string) list" where
  "endpoints_of version =
     [(''branches'', ''/v'' @ string_of_nat version @ ''/branches''),
      (''columns'', ''/v'' @ string_of_nat version @ ''/columns''),
      (''commits'', ''/v'' @ string_of_nat version @ ''/commits''),
      (''databases'', ''/v'' @ string_of_nat version @ ''/databases''),
      (''delete'', ''/v'' @ string_of_nat version @ ''/delete''),
      (''execute'', ''/v'' @ string_of_nat version @ ''/execute''),
      (''query'', ''/v'' @ string_of_nat version @ ''/query'')]"

definition get_endpoints :: "(string \<times> string) list" where
  "get_endpoints = (let version = 1 in endpoints_of version)"

text \<open>\<^verbatim>\<open>get_endpoints\<close> of the earlier source file (\<^verbatim>\<open>unnamed/part_000\<close>): four operations.\<close>

definition endpoints_of_earlier :: "nat \<Rightarrow> (string \<times> string) list" where
  "endpoints_of_earlier version =
     [(''databases'', ''/v'' @ string_of_nat version @ ''/databases''),
      (''columns'', ''/v'' @ string_of_nat version @ ''/columns''),
      (''query'', ''/v'' @ string_of_nat version @ ''/query''),
      (''execute'', ''/v'' @ string_of_nat version @ ''/execute'')]"

definition get_endpoints_earlier :: "(string \<times> string) list" where
  "get_endpoints_earlier = (let version = 1 in endpoints_of_earlier version)"

text \<open>
  The constructor. The argument is \<open>None\<close> when it is absent (\<^verbatim>\<open>undefined\<close>). The test
  \<^verbatim>\<open>!api_key\<close> holds for \<^verbatim>\<open>undefined\<close> and for the empty string, and for no other string.
\<close>

definition new_DBHub :: "string option \<Rightarrow> construction" where
  "new_DBHub api_key_arg =
     (case api_key_arg of
        None \<Rightarrow>
          \<lparr>new_requests = [], new_result = Inl (JsError ''Missing required API key!'' None)\<rparr>
      | Some k \<Rightarrow>
          if k = []
          then \<lparr>new_requests = [], new_result = Inl (JsError ''Missing required API key!'' None)\<rparr>
          else \<lparr>new_requests = [],
                 new_result = Inr \<lparr>base_url = ''https://api.dbhub.io'',
                                   endpoints = get_endpoints,
                                   api_key = k\<rparr>\<rparr>)"

text \<open>
  \<^verbatim>\<open>new Error(message, options)\<close> where \<open>options\<close> is an error object: the constructor
  installs a \<^verbatim>\<open>cause\<close> only when \<open>options\<close> has a property \<^verbatim>\<open>cause\<close>, and then it is the
  value of that property.
\<close>

definition new_Error :: "string \<Rightarrow> host_error \<Rightarrow> exn" where
  "new_Error message options = JsError message (host_cause options)"

text \<open>The body of a request: \<^verbatim>\<open>apikey\<close> first, then every entry of the parameters.\<close>

definition request_body :: "handle \<Rightarrow> (string \<times> js_scalar) list \<Rightarrow> form_data" where
  "request_body this parameters =
     foldl (\<lambda>body (k, v). form_append body k v)
       (form_append [] ''apikey'' (Str (api_key this))) parameters"

text \<open>
  The message of the error for a response that is not ok, from the printed \<^verbatim>\<open>error\<close>
  and the status.
\<close>

definition api_error_message :: "string \<Rightarrow> nat \<Rightarrow> string" where
  "api_error_message printed st =
     ''DBHub API error message: '' @ printed @ '' [HTTP status: '' @ string_of_nat st @ '']''"

definition make_request ::
  "'n env \<Rightarrow> handle \<Rightarrow> string \<Rightarrow> (string \<times> js_scalar) list \<Rightarrow> 'n outcome" where
  "make_request env this url parameters =
     (let body = request_body this parameters;
          req = \<lparr>req_url = url, req_method = ''POST'', req_body = body\<rparr>
      in case fetch env req of
           Rejected error \<Rightarrow>
             \<lparr>this_after = this, requests = [req],
              result = Inl (new_Error ''Fetch failed!'' error)\<rparr>
         | Resolved response \<Rightarrow>
             if \<not> ok response then
               (case json response of
                  Inl e \<Rightarrow> \<lparr>this_after = this, requests = [req], result = Inl (Rejection e)\<rparr>
                | Inr v \<Rightarrow>
                    (case destructure_error v of
                       Inl e \<Rightarrow> \<lparr>this_after = this, requests = [req], result = Inl e\<rparr>
                     | Inr error \<Rightarrow>
                         (case template_value (number_to_string env) error of
                            Inl e \<Rightarrow> \<lparr>this_after = this, requests = [req], result = Inl e\<rparr>
                          | Inr printed \<Rightarrow>
                              \<lparr>this_after = this, requests = [req],
                               result = Inl (JsError
                                 (api_error_message printed (status response)) None)\<rparr>)))
             else
               (case json response of
                  Inl e \<Rightarrow> \<lparr>this_after = this, requests = [req], result = Inl (Rejection e)\<rparr>
                | Inr v \<Rightarrow> \<lparr>this_after = this, requests = [req], result = Inr v\<rparr>))"

text \<open>
  \<^verbatim>\<open>`${this.base_url}${this.endpoints.name}`\<close>: a property the table does not have
  prints as \<^verbatim>\<open>undefined\<close>.
\<close>

definition endpoint_url :: "handle \<Rightarrow> string \<Rightarrow> string" where
  "endpoint_url this name =
     base_url this @ (case map_of (endpoints this) name of None \<Rightarrow> ''undefined'' | Some p \<Rightarrow> p)"

definition get_branches :: "'n env \<Rightarrow> handle \<Rightarrow> string \<Rightarrow> string \<Rightarrow> 'n outcome" where
  "get_branches env this dbowner dbname =
     (let url = endpoint_url this ''branches'';
          parameters = [(''dbowner'', Str dbowner), (''dbname'', Str dbname)]
      in make_request env this url parameters)"

definition get_columns :: "'n env \<Rightarrow> handle \<Rightarrow> string \<Rightarrow> string \<Rightarrow> string \<Rightarrow> 'n outcome" where
  "get_columns env this dbowner dbname table =
     (let url = endpoint_url this ''columns'';
          parameters = [(''dbowner'', Str dbowner), (''dbname'', Str dbname), (''table'', Str table)]
      in make_request env this url parameters)"

definition get_commits :: "'n env \<Rightarrow> handle \<Rightarrow> string \<Rightarrow> string \<Rightarrow> 'n outcome" where
  "get_commits env this dbowner dbname =
     (let url = endpoint_url this ''commits'';
          parameters = [(''dbowner'', Str dbowner), (''dbname'', Str dbname)]
      in make_request env this url parameters)"

text \<open>\<^verbatim>\<open>get_databases(live = false)\<close>: an absent argument (\<open>None\<close>) is \<^verbatim>\<open>false\<close>.\<close>

definition get_databases :: "'n env \<Rightarrow> handle \<Rightarrow> bool option \<Rightarrow> 'n outcome" where
  "get_databases env this live_arg =
     (let live = (case live_arg of None \<Rightarrow> False | Some b \<Rightarrow> b);
          url = endpoint_url this ''databases'';
          parameters = [(''live'', Boolean live)]
      in make_request env this url parameters)"

definition delete_database :: "'n env \<Rightarrow> handle \<Rightarrow> string \<Rightarrow> 'n outcome" where
  "delete_database env this dbname =
     (let url = endpoint_url this ''delete'';
          parameters = [(''dbname'', Str dbname)]
      in make_request env this url parameters)"

text \<open>
  \<^verbatim>\<open>execute\<close> and \<^verbatim>\<open>query\<close>: \<^verbatim>\<open>btoa(sql)\<close> runs while the parameter object is built, before
  the dispatcher is called; when it throws, the method throws and \<^verbatim>\<open>fetch\<close> is not called.
\<close>

definition execute :: "'n env \<Rightarrow> handle \<Rightarrow> string \<Rightarrow> string \<Rightarrow> js_string \<Rightarrow> 'n outcome" where
  "execute env this dbowner dbname sql =
     (let url = endpoint_url this ''execute''
      in case btoa sql of
           Inl e \<Rightarrow> \<lparr>this_after = this, requests = [], result = Inl e\<rparr>
         | Inr encoded \<Rightarrow>
             (let parameters =
                    [(''dbowner'', Str dbowner), (''dbname'', Str dbname), (''sql'', Str encoded)]
              in make_request env this url parameters))"

definition query :: "'n env \<Rightarrow> handle \<Rightarrow> string \<Rightarrow> string \<Rightarrow> js_string \<Rightarrow> 'n outcome" where
  "query env this dbowner dbname sql =
     (let url = endpoint_url this ''query''
      in case btoa sql of
           Inl e \<Rightarrow> \<lparr>this_after = this, requests = [], result = Inl e\<rparr>
         | Inr encoded \<Rightarrow>
             (let parameters =
                    [(''dbowner'', Str dbowner), (''dbname'', Str dbname), (''sql'', Str encoded)]
              in make_request env this url parameters))"

text \<open>A call of a method of the class on an instance, with its arguments.\<close>

datatype call =
    Get_branches string string
  | Get_columns string string string
  | Get_commits string string
  | Get_databases "bool option"
  | Delete_database string
  | Execute string string js_string
  | Query string string js_string
  | Make_request string "(string \<times> js_scalar) list"

fun invoke :: "'n env \<Rightarrow> handle \<Rightarrow> call \<Rightarrow> 'n outcome" where
  "invoke env this (Get_branches dbowner dbname) = get_branches env this dbowner dbname"
| "invoke env this (Get_columns dbowner dbname table) = get_columns env this dbowner dbname table"
| "invoke env this (Get_commits dbowner dbname) = get_commits env this dbowner dbname"
| "invoke env this (Get_databases live) = get_databases env this live"
| "invoke env this (Delete_database dbname) = delete_database env this dbname"
| "invoke env this (Execute dbowner dbname sql) = execute env this dbowner dbname sql"
| "invoke env this (Query dbowner dbname sql) = query env this dbowner dbname sql"
| "invoke env this (Make_request url parameters) = make_request env this url parameters"

subsection \<open>Hosts and an instance for concrete runs\<close>

text \<open>A host whose network answers every request with the same status and body.\<close>

definition host_answering :: "nat \<Rightarrow> host_error + nat json \<Rightarrow> nat env" where
  "host_answering st b =
     \<lparr>fetch = (\<lambda>req. Resolved \<lparr>status = st, json = b\<rparr>), number_to_string = string_of_nat\<rparr>"

text \<open>A host whose network call fails with the given error.\<close>

definition host_failing :: "host_error \<Rightarrow> nat env" where
  "host_failing e = \<lparr>fetch = (\<lambda>req. Rejected e), number_to_string = string_of_nat\<rparr>"

definition secret_handle :: handle where
  "secret_handle =
     \<lparr>base_url = ''https://api.dbhub.io'', endpoints = get_endpoints, api_key = ''secret''\<rparr>"

text \<open>The parser's error for a body that starts with \<^verbatim>\<open><\<close>, such as an HTML error page.\<close>

definition html_body_error :: host_error where
  "html_body_error = HostError ''SyntaxError'' ''Unexpected token < in JSON at position 0'' None"

section \<open>Properties\<close>

subsection \<open>Auxiliary facts\<close>

lemma foldl_form_append:
  "foldl (\<lambda>body (k, v). form_append body k v) b ps = b @ map (\<lambda>(k, v). (k, form_string v)) ps"
  by (induction ps arbitrary: b) (auto simp: form_append_def)

lemma request_body_eq:
  "request_body this ps = (''apikey'', api_key this) # map (\<lambda>(k, v). (k, form_string v)) ps"
  unfolding request_body_def foldl_form_append by (simp add: form_append_def)

lemma string_of_nat_1: "string_of_nat 1 = ''1''"
  by (simp add: string_of_nat.simps digit_char_def)

lemma string_of_nat_404: "string_of_nat 404 = ''404''"
  by (simp add: string_of_nat.simps digit_char_def)

text \<open>All code points are at most \<^verbatim>\<open>U+00FF\<close> exactly when all code units are.\<close>

lemma code_points_latin1:
  "list_all (\<lambda>c. c \<le> 0xFF) (code_points s) \<longleftrightarrow> list_all (\<lambda>u. u \<le> 0xFF) s"
proof (induction s rule: code_points.induct)
  case 1
  show ?case by simp
next
  case (2 u)
  show ?case by (simp add: word_le_nat_alt)
next
  case (3 u v us)
  show ?case
  proof (cases "0xD800 \<le> u \<and> u \<le> 0xDBFF \<and> 0xDC00 \<le> v \<and> v \<le> 0xDFFF")
    case True
    then have "\<not> u \<le> 0xFF" by (auto simp: word_le_nat_alt)
    with True show ?thesis by simp
  next
    case False
    with 3 show ?thesis by (simp add: word_le_nat_alt)
  qed
qed

lemma length_base64: "length (base64 bs) = 4 * ((length bs + 2) div 3)"
proof (induction bs rule: base64.induct)
  case (4 a b c bs)
  have "(length (a # b # c # bs) + 2) div 3 = Suc ((length bs + 2) div 3)"
    by simp
  with 4 show ?case by simp
qed simp_all

lemma base64_longer: "bs \<noteq> [] \<Longrightarrow> length bs < length (base64 bs)"
  by (cases bs) (simp_all add: length_base64)

text \<open>The test vectors of RFC 4648 (\<^verbatim>\<open>f\<close>, \<^verbatim>\<open>fo\<close>, \<^verbatim>\<open>foo\<close>, \<^verbatim>\<open>foob\<close>, \<^verbatim>\<open>foobar\<close>).\<close>

lemma base64_rfc4648:
  "base64 [102] = ''Zg==''"
  "base64 [102, 111] = ''Zm8=''"
  "base64 [102, 111, 111] = ''Zm9v''"
  "base64 [102, 111, 111, 98] = ''Zm9vYg==''"
  "base64 [102, 111, 111, 98, 97, 114] = ''Zm9vYmFy''"
  by (simp_all add: base64_digit_def base64_alphabet_def)

lemma select_1: "base64 (map unat (js_of_string ''SELECT 1'')) = ''U0VMRUNUIDE=''"
  by (simp add: js_of_string_def base64_digit_def base64_alphabet_def)

lemma make_request_this: "this_after (make_request env this url ps) = this"
  by (simp add: make_request_def Let_def split: fetch_result.splits sum.splits)

lemma make_request_requests:
  "requests (make_request env this url ps) =
     [\<lparr>req_url = url, req_method = ''POST'', req_body = request_body this ps\<rparr>]"
  by (simp add: make_request_def Let_def split: fetch_result.splits sum.splits)

lemma make_request_rejected:
  "fetch env \<lparr>req_url = url, req_method = ''POST'', req_body = request_body this ps\<rparr> = Rejected e \<Longrightarrow>
   result (make_request env this url ps) = Inl (JsError ''Fetch failed!'' (host_cause e))"
  by (simp add: make_request_def Let_def new_Error_def)

lemma make_request_ok:
  "fetch env \<lparr>req_url = url, req_method = ''POST'', req_body = request_body this ps\<rparr> = Resolved r \<Longrightarrow>
   ok r \<Longrightarrow>
   result (make_request env this url ps) = (case json r of Inl e \<Rightarrow> Inl (Rejection e) | Inr v \<Rightarrow> Inr v)"
  by (simp add: make_request_def Let_def split: sum.splits)

lemma make_request_not_ok:
  "fetch env \<lparr>req_url = url, req_method = ''POST'', req_body = request_body this ps\<rparr> = Resolved r \<Longrightarrow>
   \<not> ok r \<Longrightarrow>
   result (make_request env this url ps) =
     (case json r of
        Inl e \<Rightarrow> Inl (Rejection e)
      | Inr v \<Rightarrow>
          (case destructure_error v of
             Inl e \<Rightarrow> Inl e
           | Inr error \<Rightarrow>
               (case template_value (number_to_string env) error of
                  Inl e \<Rightarrow> Inl e
                | Inr printed \<Rightarrow> Inl (JsError (api_error_message printed (status r)) None))))"
  by (simp add: make_request_def Let_def split: sum.splits)

text \<open>A call either is one call of the dispatcher, or \<^verbatim>\<open>btoa\<close> threw before it.\<close>

lemma invoke_cases:
  "(\<exists>url ps. invoke env this c = make_request env this url ps) \<or>
   invoke env this c = \<lparr>this_after = this, requests = [], result = Inl InvalidCharacterError\<rparr>"
proof (cases c)
  case (Execute owner db sql)
  then show ?thesis
    by (auto simp: execute_def btoa_def Let_def)
next
  case (Query owner db sql)
  then show ?thesis
    by (auto simp: query_def btoa_def Let_def)
qed (auto simp: get_branches_def get_columns_def get_commits_def get_databases_def
       delete_database_def Let_def)

lemma host_error_not_own_cause: "e \<noteq> HostError n m (Some e)"
  by (induction e arbitrary: n m) auto

lemma host_cause_neq: "host_cause e \<noteq> Some e"
  using host_error_not_own_cause [of e "host_name e" "host_message e"]
  by (cases e) auto

lemma invoke_single_request:
  assumes "requests (invoke env this c) = [req]"
  shows "\<exists>url ps. invoke env this c = make_request env this url ps \<and>
           req = \<lparr>req_url = url, req_method = ''POST'', req_body = request_body this ps\<rparr>"
proof -
  from invoke_cases [of env this c] assms obtain url ps
    where inv: "invoke env this c = make_request env this url ps"
    by auto
  with assms have "req = \<lparr>req_url = url, req_method = ''POST'', req_body = request_body this ps\<rparr>"
    by (simp add: make_request_requests)
  with inv show ?thesis by blast
qed

lemma query_requests:
  "requests (query env this owner db sql) =
     (if list_all (\<lambda>u. u \<le> 0xFF) sql
      then [\<lparr>req_url = endpoint_url this ''query'', req_method = ''POST'',
             req_body = [(''apikey'', api_key this), (''dbowner'', owner), (''dbname'', db),
                         (''sql'', base64 (map unat sql))]\<rparr>]
      else [])"
  by (simp add: query_def btoa_def Let_def make_request_requests request_body_eq)

lemma execute_requests:
  "requests (execute env this owner db sql) =
     (if list_all (\<lambda>u. u \<le> 0xFF) sql
      then [\<lparr>req_url = endpoint_url this ''execute'', req_method = ''POST'',
             req_body = [(''apikey'', api_key this), (''dbowner'', owner), (''dbname'', db),
                         (''sql'', base64 (map unat sql))]\<rparr>]
      else [])"
  by (simp add: execute_def btoa_def Let_def make_request_requests request_body_eq)

lemma base64_not_raw: "sql \<noteq> [] \<Longrightarrow> js_of_string (base64 (map unat sql)) \<noteq> sql"
proof
  assume "sql \<noteq> []" and eq: "js_of_string (base64 (map unat sql)) = sql"
  then have "length (map unat sql) < length (base64 (map unat sql))"
    by (intro base64_longer) simp
  moreover have "length (js_of_string (base64 (map unat sql))) = length sql"
    using eq by simp
  ultimately show False by (simp add: js_of_string_def)
qed

lemma js_of_string_latin1: "list_all (\<lambda>u. u \<le> 0xFF) (js_of_string ''SELECT 1'')"
  by (simp add: js_of_string_def)

lemma query_throws:
  "\<not> list_all (\<lambda>u. u \<le> 0xFF) sql \<Longrightarrow>
   result (query env this owner db sql) = Inl InvalidCharacterError"
  by (simp add: query_def btoa_def Let_def)

lemma execute_throws:
  "\<not> list_all (\<lambda>u. u \<le> 0xFF) sql \<Longrightarrow>
   result (execute env this owner db sql) = Inl InvalidCharacterError"
  by (simp add: execute_def btoa_def Let_def)

lemma api_error_message_neq: "''Fetch failed!'' \<noteq> api_error_message printed st"
  by (simp add: api_error_message_def)

lemma sublist_in_message:
  "sublist e (a @ e @ b @ s @ c)" "sublist s (a @ e @ b @ s @ c)"
proof -
  show "sublist e (a @ e @ b @ s @ c)" by simp
  have "sublist s ((a @ e @ b) @ s @ c)" by (rule sublist_appendI)
  then show "sublist s (a @ e @ b @ s @ c)" by simp
qed

text \<open>A call whose SQL text \<^verbatim>\<open>btoa\<close> accepts, and every call without SQL text, is one call of the dispatcher.\<close>

lemma invoke_dispatches:
  assumes "\<forall>owner db sql. c = Query owner db sql \<or> c = Execute owner db sql \<longrightarrow>
             list_all (\<lambda>u. u \<le> 0xFF) sql"
  shows "\<exists>url ps. invoke env this c = make_request env this url ps"
proof (cases c)
  case (Execute owner db sql)
  with assms have "list_all (\<lambda>u. u \<le> 0xFF) sql" by simp
  with Execute show ?thesis
    by (auto simp: execute_def btoa_def Let_def)
next
  case (Query owner db sql)
  with assms have "list_all (\<lambda>u. u \<le> 0xFF) sql" by simp
  with Query show ?thesis
    by (auto simp: query_def btoa_def Let_def)
qed (auto simp: get_branches_def get_columns_def get_commits_def get_databases_def
       delete_database_def Let_def)

lemma invoke_one_request:
  assumes "\<forall>owner db sql. c = Query owner db sql \<or> c = Execute owner db sql \<longrightarrow>
             list_all (\<lambda>u. u \<le> 0xFF) sql"
  shows "\<exists>req. requests (invoke env this c) = [req]"
proof -
  from invoke_dispatches [OF assms, of env this] obtain url ps
    where "invoke env this c = make_request env this url ps"
    by auto
  then show ?thesis
    by (simp add: make_request_requests)
qed

lemma invoke_ok_result:
  assumes "requests (invoke env this c) = [req]"
    and "fetch env req = Resolved r"
    and "ok r"
  shows "result (invoke env this c) = (case json r of Inl e \<Rightarrow> Inl (Rejection e) | Inr v \<Rightarrow> Inr v)"
proof -
  from invoke_single_request [OF assms(1)] obtain url ps
    where inv: "invoke env this c = make_request env this url ps"
      and req: "req = \<lparr>req_url = url, req_method = ''POST'', req_body = request_body this ps\<rparr>"
    by blast
  from assms(2) req
  have "fetch env \<lparr>req_url = url, req_method = ''POST'', req_body = request_body this ps\<rparr> = Resolved r"
    by simp
  from make_request_ok [OF this assms(3)] inv show ?thesis by simp
qed

lemma invoke_not_ok_result:
  assumes "requests (invoke env this c) = [req]"
    and "fetch env req = Resolved r"
    and "\<not> ok r"
  shows "result (invoke env this c) =
     (case json r of
        Inl e \<Rightarrow> Inl (Rejection e)
      | Inr v \<Rightarrow>
          (case destructure_error v of
             Inl e \<Rightarrow> Inl e
           | Inr error \<Rightarrow>
               (case template_value (number_to_string env) error of
                  Inl e \<Rightarrow> Inl e
                | Inr printed \<Rightarrow> Inl (JsError (api_error_message printed (status r)) None))))"
proof -
  from invoke_single_request [OF assms(1)] obtain url ps
    where inv: "invoke env this c = make_request env this url ps"
      and req: "req = \<lparr>req_url = url, req_method = ''POST'', req_body = request_body this ps\<rparr>"
    by blast
  from assms(2) req
  have "fetch env \<lparr>req_url = url, req_method = ''POST'', req_body = request_body this ps\<rparr> = Resolved r"
    by simp
  from make_request_not_ok [OF this assms(3)] inv show ?thesis by simp
qed

text \<open>What a call throws for a response that is not ok, by the shape of the body.\<close>

lemma non_2xx_cases:
  assumes "requests (invoke env this c) = [req]"
    and "fetch env req = Resolved r"
    and "\<not> ok r"
  shows "(\<exists>x. result (invoke env this c) = Inl x) \<and>
    (\<forall>v error printed.
       json r = Inr v \<and> destructure_error v = Inr error \<and>
       template_value (number_to_string env) error = Inr printed \<longrightarrow>
       result (invoke env this c) =
         Inl (JsError (''DBHub API error message: '' @ printed @
                       '' [HTTP status: '' @ string_of_nat (status r) @ '']'') None)) \<and>
    (\<forall>kvs e. json r = Inr (JObj kvs) \<and> map_of kvs ''error'' = Some (JStr e) \<longrightarrow>
       (\<exists>m. result (invoke env this c) = Inl (JsError m None) \<and>
            m = ''DBHub API error message: '' @ e @
                '' [HTTP status: '' @ string_of_nat (status r) @ '']'' \<and>
            sublist e m \<and> sublist (string_of_nat (status r)) m)) \<and>
    (\<forall>v error e.
       json r = Inr v \<and> destructure_error v = Inr error \<and>
       template_value (number_to_string env) error = Inl e \<longrightarrow>
       result (invoke env this c) = Inl e) \<and>
    (\<forall>e. json r = Inl e \<longrightarrow> result (invoke env this c) = Inl (Rejection e)) \<and>
    (json r = Inr JNull \<longrightarrow> result (invoke env this c) = Inl DestructureTypeError)"
proof -
  note res = invoke_not_ok_result [OF assms]
  show ?thesis
  proof (intro conjI allI impI)
    show "\<exists>x. result (invoke env this c) = Inl x"
      by (simp add: res split: sum.splits)
  next
    fix v error printed
    assume "json r = Inr v \<and> destructure_error v = Inr error \<and>
       template_value (number_to_string env) error = Inr printed"
    then show "result (invoke env this c) =
         Inl (JsError (''DBHub API error message: '' @ printed @
                       '' [HTTP status: '' @ string_of_nat (status r) @ '']'') None)"
      by (simp add: res api_error_message_def)
  next
    fix kvs e
    assume "json r = Inr (JObj kvs) \<and> map_of kvs ''error'' = Some (JStr e)"
    then have "result (invoke env this c) =
        Inl (JsError (''DBHub API error message: '' @ e @
                '' [HTTP status: '' @ string_of_nat (status r) @ '']'') None)"
      by (simp add: res api_error_message_def template_value_def)
    moreover note sublist_in_message [where e = e and a = "''DBHub API error message: ''"
          and b = "'' [HTTP status: ''" and s = "string_of_nat (status r)" and c = "'']''"]
    ultimately show "\<exists>m. result (invoke env this c) = Inl (JsError m None) \<and>
            m = ''DBHub API error message: '' @ e @
                '' [HTTP status: '' @ string_of_nat (status r) @ '']'' \<and>
            sublist e m \<and> sublist (string_of_nat (status r)) m"
      by (intro exI conjI) (rule refl | assumption)+
  next
    fix v error e
    assume "json r = Inr v \<and> destructure_error v = Inr error \<and>
       template_value (number_to_string env) error = Inl e"
    then show "result (invoke env this c) = Inl e"
      by (simp add: res)
  next
    fix e
    assume "json r = Inl e"
    then show "result (invoke env this c) = Inl (Rejection e)"
      by (simp add: res)
  next
    assume "json r = Inr JNull"
    then show "result (invoke env this c) = Inl DestructureTypeError"
      by (simp add: res)
  qed
qed

subsection \<open>The configuration of an instance\<close>

text \<open>
  C9. A call of any method of the catalog, or of the dispatcher itself, leaves the
  instance as it was, whatever the call returns or throws: \<open>base_url\<close>, \<open>api_key\<close> and
  \<open>endpoints\<close> are the same after the call as before.
\<close>

theorem configuration_unchanged:
  "this_after (invoke env this c) = this \<and>
   base_url (this_after (invoke env this c)) = base_url this \<and>
   api_key (this_after (invoke env this c)) = api_key this \<and>
   endpoints (this_after (invoke env this c)) = endpoints this"
proof -
  have "this_after (invoke env this c) = this"
    using invoke_cases [of env this c] by (auto simp: make_request_this)
  then show ?thesis by simp
qed

text \<open>
  C5. The constructor throws its \<^verbatim>\<open>Missing required API key!\<close> error, and makes no
  instance, when the key is absent or the empty string; with any non-empty string it
  makes the instance with the fixed base URL, the endpoint table (seven paths) and the
  key. It never calls \<^verbatim>\<open>fetch\<close>.
\<close>

theorem construction_checks_key:
  "new_requests (new_DBHub key) = [] \<and>
   (key = None \<or> key = Some [] \<longrightarrow>
      new_result (new_DBHub key) = Inl (JsError ''Missing required API key!'' None)) \<and>
   (\<forall>k. key = Some k \<and> k \<noteq> [] \<longrightarrow>
      new_result (new_DBHub key) =
        Inr \<lparr>base_url = ''https://api.dbhub.io'', endpoints = get_endpoints, api_key = k\<rparr>) \<and>
   map fst get_endpoints =
     [''branches'', ''columns'', ''commits'', ''databases'', ''delete'', ''execute'', ''query'']"
  by (auto simp: new_DBHub_def get_endpoints_def endpoints_of_def split: option.splits)

theorem construction_checks_key_witness:
  "new_result (new_DBHub None) = Inl (JsError ''Missing required API key!'' None) \<and>
   new_result (new_DBHub (Some [])) = Inl (JsError ''Missing required API key!'' None) \<and>
   new_result (new_DBHub (Some ''k'')) =
     Inr \<lparr>base_url = ''https://api.dbhub.io'', endpoints = get_endpoints, api_key = ''k''\<rparr> \<and>
   new_requests (new_DBHub (Some ''k'')) = []"
  using construction_checks_key [of None] construction_checks_key [of "Some []"]
    construction_checks_key [of "Some ''k''"]
  by simp

subsection \<open>The endpoint table\<close>

text \<open>
  C7. The endpoint table is its object literal at the version constant 1, in both source
  files. At every version, each entry of the earlier table (databases, columns, query,
  execute) is in the later table with the same path, and the later table has exactly
  three more names: branches, commits and delete.
\<close>

theorem endpoint_table_append_only:
  "get_endpoints = endpoints_of 1 \<and> get_endpoints_earlier = endpoints_of_earlier 1 \<and>
   map fst (endpoints_of_earlier version) = [''databases'', ''columns'', ''query'', ''execute''] \<and>
   (\<forall>name path. map_of (endpoints_of_earlier version) name = Some path \<longrightarrow>
      map_of (endpoints_of version) name = Some path) \<and>
   set (map fst (endpoints_of version)) =
     set (map fst (endpoints_of_earlier version)) \<union> {''branches'', ''commits'', ''delete''} \<and>
   distinct (map fst (endpoints_of version))"
proof -
  have "map_of (endpoints_of version) name = Some path"
    if "map_of (endpoints_of_earlier version) name = Some path" for name path
    using that by (simp add: endpoints_of_def endpoints_of_earlier_def split: if_splits)
  moreover have "set (map fst (endpoints_of version)) =
     set (map fst (endpoints_of_earlier version)) \<union> {''branches'', ''commits'', ''delete''}"
    by (auto simp: endpoints_of_def endpoints_of_earlier_def)
  ultimately show ?thesis
    by (simp add: get_endpoints_def get_endpoints_earlier_def endpoints_of_def
        endpoints_of_earlier_def)
qed

theorem endpoint_table_append_only_witness:
  "map_of get_endpoints_earlier ''query'' = Some ''/v1/query'' \<and>
   map_of get_endpoints ''query'' = Some ''/v1/query''"
proof -
  have e: "map_of (endpoints_of_earlier 1) ''query'' = Some ''/v1/query''"
    unfolding endpoints_of_earlier_def string_of_nat_1 by simp
  have "map_of (endpoints_of 1) ''query'' = Some ''/v1/query''"
    using endpoint_table_append_only [of 1] e by blast
  with e show ?thesis
    using endpoint_table_append_only [of 1] by simp
qed

subsection \<open>The catalog\<close>

text \<open>
  C8. \<^verbatim>\<open>delete_database(dbname)\<close> is one call of the dispatcher with the parameter object
  \<^verbatim>\<open>{dbname}\<close>, one entry. It makes one request, to the delete endpoint, whose body is the
  \<^verbatim>\<open>apikey\<close> entry and the \<^verbatim>\<open>dbname\<close> entry: no \<^verbatim>\<open>dbowner\<close> entry is sent.
\<close>

theorem delete_database_sends_dbname_only:
  "delete_database env this dbname =
     make_request env this (endpoint_url this ''delete'') [(''dbname'', Str dbname)] \<and>
   requests (delete_database env this dbname) =
     [\<lparr>req_url = endpoint_url this ''delete'', req_method = ''POST'',
       req_body = [(''apikey'', api_key this), (''dbname'', dbname)]\<rparr>] \<and>
   requests (invoke env this (Delete_database dbname)) = requests (delete_database env this dbname) \<and>
   map (\<lambda>req. map fst (req_body req)) (requests (delete_database env this dbname)) =
     [[''apikey'', ''dbname'']]"
  by (simp add: delete_database_def make_request_requests request_body_eq)

subsection \<open>Success\<close>

text \<open>
  C6. Every call of the catalog or of the dispatcher whose SQL text, if it has one, is
  accepted by \<^verbatim>\<open>btoa\<close> makes exactly one request; and whenever the response to that
  request has a status from 200 to 299, the call settles as \<^verbatim>\<open>response.json()\<close> does: it
  returns the parsed body as it is, of any shape, with no check and no change. So on a
  host that answers every request with the same 2xx response, the call returns the
  parsed body of that response. A 200 response with the body \<^verbatim>\<open>[]\<close> to
  \<^verbatim>\<open>get_databases(false)\<close> returns the empty list.
\<close>

theorem success_returns_parsed_body:
  assumes "\<forall>owner db sql. c = Query owner db sql \<or> c = Execute owner db sql \<longrightarrow>
             list_all (\<lambda>u. u \<le> 0xFF) sql"
  shows "(\<exists>req. requests (invoke env this c) = [req]) \<and>
    (\<forall>req r. requests (invoke env this c) = [req] \<and> fetch env req = Resolved r \<and> ok r \<longrightarrow>
       result (invoke env this c) =
         (case json r of Inl e \<Rightarrow> Inl (Rejection e) | Inr v \<Rightarrow> Inr v)) \<and>
    (\<forall>r. (\<forall>req. fetch env req = Resolved r) \<and> ok r \<longrightarrow>
       result (invoke env this c) =
         (case json r of Inl e \<Rightarrow> Inl (Rejection e) | Inr v \<Rightarrow> Inr v))"
proof -
  from invoke_one_request [OF assms, of env this] obtain req0
    where one: "requests (invoke env this c) = [req0]"
    by auto
  have every: "result (invoke env this c) =
         (case json r of Inl e \<Rightarrow> Inl (Rejection e) | Inr v \<Rightarrow> Inr v)"
    if "\<forall>req. fetch env req = Resolved r" and "ok r" for r
  proof -
    from that(1) have "fetch env req0 = Resolved r" by simp
    from invoke_ok_result [OF one this that(2)] show ?thesis .
  qed
  show ?thesis
  proof (intro conjI allI impI)
    show "\<exists>req. requests (invoke env this c) = [req]"
      using one by simp
  next
    fix req r
    assume "requests (invoke env this c) = [req] \<and> fetch env req = Resolved r \<and> ok r"
    then show "result (invoke env this c) =
         (case json r of Inl e \<Rightarrow> Inl (Rejection e) | Inr v \<Rightarrow> Inr v)"
      using invoke_ok_result [of env this c req r] by simp
  next
    fix r
    assume "(\<forall>req. fetch env req = Resolved r) \<and> ok r"
    then show "result (invoke env this c) =
         (case json r of Inl e \<Rightarrow> Inl (Rejection e) | Inr v \<Rightarrow> Inr v)"
      using every [of r] by simp
  qed
qed

theorem success_returns_parsed_body_witness:
  "length (requests (invoke (host_answering 200 (Inr (JArr []))) secret_handle
             (Get_databases (Some False)))) = 1 \<and>
   result (invoke (host_answering 200 (Inr (JArr []))) secret_handle (Get_databases (Some False))) =
     Inr (JArr []) \<and>
   result (invoke (host_answering 200 (Inr (JObj [(''a'', JNum 1)]))) secret_handle
             (Query ''owner'' ''db'' (js_of_string ''SELECT 1''))) =
     Inr (JObj [(''a'', JNum 1)])"
proof -
  let ?c1 = "Get_databases (Some False)"
  let ?e1 = "host_answering 200 (Inr (JArr []))"
  let ?r1 = "\<lparr>status = 200, json = Inr (JArr [])\<rparr> :: nat response"
  let ?c2 = "Query ''owner'' ''db'' (js_of_string ''SELECT 1'')"
  let ?e2 = "host_answering 200 (Inr (JObj [(''a'', JNum 1)]))"
  let ?r2 = "\<lparr>status = 200, json = Inr (JObj [(''a'', JNum 1)])\<rparr> :: nat response"
  have h1: "\<forall>owner db sql. ?c1 = Query owner db sql \<or> ?c1 = Execute owner db sql \<longrightarrow>
              list_all (\<lambda>u. u \<le> 0xFF) sql"
    by simp
  have h2: "\<forall>owner db sql. ?c2 = Query owner db sql \<or> ?c2 = Execute owner db sql \<longrightarrow>
              list_all (\<lambda>u. u \<le> 0xFF) sql"
    using js_of_string_latin1 by auto
  have f1: "(\<forall>req. fetch ?e1 req = Resolved ?r1) \<and> ok ?r1"
    by (simp add: host_answering_def ok_def)
  have f2: "(\<forall>req. fetch ?e2 req = Resolved ?r2) \<and> ok ?r2"
    by (simp add: host_answering_def ok_def)
  note t1 = success_returns_parsed_body [OF h1, of ?e1 secret_handle]
  note t2 = success_returns_parsed_body [OF h2, of ?e2 secret_handle]
  from t1 have "\<exists>req. requests (invoke ?e1 secret_handle ?c1) = [req]"
    by (elim conjE)
  then have a: "length (requests (invoke ?e1 secret_handle ?c1)) = 1"
    by auto
  from t1 have "\<forall>r. (\<forall>req. fetch ?e1 req = Resolved r) \<and> ok r \<longrightarrow>
       result (invoke ?e1 secret_handle ?c1) =
         (case json r of Inl e \<Rightarrow> Inl (Rejection e) | Inr v \<Rightarrow> Inr v)"
    by (elim conjE)
  from this [rule_format, OF f1]
  have b: "result (invoke ?e1 secret_handle ?c1) = Inr (JArr [])"
    by simp
  from t2 have "\<forall>r. (\<forall>req. fetch ?e2 req = Resolved r) \<and> ok r \<longrightarrow>
       result (invoke ?e2 secret_handle ?c2) =
         (case json r of Inl e \<Rightarrow> Inl (Rejection e) | Inr v \<Rightarrow> Inr v)"
    by (elim conjE)
  from this [rule_format, OF f2]
  have c: "result (invoke ?e2 secret_handle ?c2) = Inr (JObj [(''a'', JNum 1)])"
    by simp
  from a b c show ?thesis
    by (intro conjI)
qed

subsection \<open>The SQL text\<close>

text \<open>
  C10. \<^verbatim>\<open>btoa\<close> is partial, and so are \<^verbatim>\<open>query\<close> and \<^verbatim>\<open>execute\<close>. When every code point of
  the SQL text is at most \<^verbatim>\<open>U+00FF\<close>, \<^verbatim>\<open>btoa\<close> returns the base64 text and the method
  makes its one request, with that text in the \<^verbatim>\<open>sql\<close> entry. When some code point is
  above \<^verbatim>\<open>U+00FF\<close>, \<^verbatim>\<open>btoa\<close> throws, the method throws the same error, and \<^verbatim>\<open>fetch\<close> is
  not called.
\<close>

theorem btoa_is_partial:
  "(list_all (\<lambda>c. c \<le> 0xFF) (code_points sql) \<longrightarrow>
      btoa sql = Inr (base64 (map unat sql)) \<and>
      requests (query env this owner db sql) =
        [\<lparr>req_url = endpoint_url this ''query'', req_method = ''POST'',
          req_body = [(''apikey'', api_key this), (''dbowner'', owner), (''dbname'', db),
                      (''sql'', base64 (map unat sql))]\<rparr>] \<and>
      requests (execute env this owner db sql) =
        [\<lparr>req_url = endpoint_url this ''execute'', req_method = ''POST'',
          req_body = [(''apikey'', api_key this), (''dbowner'', owner), (''dbname'', db),
                      (''sql'', base64 (map unat sql))]\<rparr>]) \<and>
   (\<not> list_all (\<lambda>c. c \<le> 0xFF) (code_points sql) \<longrightarrow>
      btoa sql = Inl InvalidCharacterError \<and>
      requests (query env this owner db sql) = [] \<and>
      result (query env this owner db sql) = Inl InvalidCharacterError \<and>
      requests (execute env this owner db sql) = [] \<and>
      result (execute env this owner db sql) = Inl InvalidCharacterError)"
  unfolding code_points_latin1
  by (simp add: query_requests execute_requests query_throws execute_throws btoa_def)

theorem btoa_is_partial_witness:
  "list_all (\<lambda>c. c \<le> 0xFF) (code_points (js_of_string ''SELECT 1'')) \<and>
   requests (query (host_answering 200 (Inr JNull)) secret_handle ''owner'' ''db''
               (js_of_string ''SELECT 1'')) =
     [\<lparr>req_url = ''https://api.dbhub.io/v1/query'', req_method = ''POST'',
       req_body = [(''apikey'', ''secret''), (''dbowner'', ''owner''), (''dbname'', ''db''),
                   (''sql'', ''U0VMRUNUIDE='')]\<rparr>] \<and>
   \<not> list_all (\<lambda>c. c \<le> 0xFF) (code_points [0x53, 0x20AC]) \<and>
   requests (query (host_answering 200 (Inr JNull)) secret_handle ''owner'' ''db'' [0x53, 0x20AC]) = [] \<and>
   result (query (host_answering 200 (Inr JNull)) secret_handle ''owner'' ''db'' [0x53, 0x20AC]) =
     Inl InvalidCharacterError \<and>
   \<not> list_all (\<lambda>c. c \<le> 0xFF) (code_points [0xD83D, 0xDE00]) \<and>
   requests (execute (host_answering 200 (Inr JNull)) secret_handle ''owner'' ''db'' [0xD83D, 0xDE00]) = []"
proof -
  let ?env = "host_answering 200 (Inr JNull)"
  have a: "list_all (\<lambda>c. c \<le> 0xFF) (code_points (js_of_string ''SELECT 1''))"
    unfolding code_points_latin1 by (rule js_of_string_latin1)
  have b: "\<not> list_all (\<lambda>c. c \<le> 0xFF) (code_points [0x53, 0x20AC])"
    by simp
  have c: "\<not> list_all (\<lambda>c. c \<le> 0xFF) (code_points [0xD83D, 0xDE00])"
    by simp
  have url: "endpoint_url secret_handle ''query'' = ''https://api.dbhub.io/v1/query''"
    unfolding endpoint_url_def secret_handle_def get_endpoints_def endpoints_of_def Let_def
      string_of_nat_1
    by simp
  have key: "api_key secret_handle = ''secret''"
    by (simp add: secret_handle_def)
  from a b c
    btoa_is_partial [of "js_of_string ''SELECT 1''" ?env secret_handle "''owner''" "''db''"]
    btoa_is_partial [of "[0x53, 0x20AC]" ?env secret_handle "''owner''" "''db''"]
    btoa_is_partial [of "[0xD83D, 0xDE00]" ?env secret_handle "''owner''" "''db''"]
  show ?thesis
    unfolding url key select_1 by blast
qed

text \<open>
  C4 fails for the empty SQL text: its base64 text is empty too, so the \<^verbatim>\<open>sql\<close> entry of
  the request is the raw text.
\<close>

theorem empty_sql_is_sent_raw:
  "map (\<lambda>req. map_option js_of_string (form_get (req_body req) ''sql''))
     (requests (query (host_answering 200 (Inr JNull)) secret_handle ''owner'' ''db'' [])) =
   [Some []]"
  by (simp add: query_requests form_get_def js_of_string_def)

text \<open>
  C4, amended. Every request that \<^verbatim>\<open>query\<close> or \<^verbatim>\<open>execute\<close> makes has, as its \<^verbatim>\<open>sql\<close>
  entry, the base64 text of the SQL text; when the SQL text is accepted by \<^verbatim>\<open>btoa\<close>
  (every code unit at most \<^verbatim>\<open>0xFF\<close>) the method makes exactly one request; and when the
  SQL text is not empty, the entry differs from the raw text.
  \<^verbatim>\<open>query("owner","db","SELECT 1")\<close> sends \<^verbatim>\<open>U0VMRUNUIDE=\<close>.
\<close>

theorem sql_is_sent_base64:
  "(\<forall>req \<in> set (requests (query env this owner db sql)) \<union>
              set (requests (execute env this owner db sql)).
      form_get (req_body req) ''sql'' = Some (base64 (map unat sql))) \<and>
   (list_all (\<lambda>u. u \<le> 0xFF) sql \<longrightarrow>
      length (requests (query env this owner db sql)) = 1 \<and>
      length (requests (execute env this owner db sql)) = 1) \<and>
   (sql \<noteq> [] \<longrightarrow> js_of_string (base64 (map unat sql)) \<noteq> sql)"
  by (auto simp: query_requests execute_requests form_get_def base64_not_raw split: if_splits)

theorem sql_is_sent_base64_witness:
  "map (\<lambda>req. form_get (req_body req) ''sql'')
     (requests (query (host_answering 200 (Inr JNull)) secret_handle ''owner'' ''db''
        (js_of_string ''SELECT 1''))) = [Some ''U0VMRUNUIDE='']"
proof -
  let ?q = "query (host_answering 200 (Inr JNull)) secret_handle ''owner'' ''db''
              (js_of_string ''SELECT 1'')"
  obtain req where one: "requests ?q = [req]"
    using js_of_string_latin1 by (simp add: query_requests)
  then have "req \<in> set (requests ?q) \<union>
      set (requests (execute (host_answering 200 (Inr JNull)) secret_handle ''owner'' ''db''
        (js_of_string ''SELECT 1'')))"
    by simp
  with sql_is_sent_base64
    [of "host_answering 200 (Inr JNull)" secret_handle "''owner''" "''db''" "js_of_string ''SELECT 1''"]
  have "form_get (req_body req) ''sql'' = Some (base64 (map unat (js_of_string ''SELECT 1'')))"
    by blast
  with one show ?thesis by (simp add: select_1)
qed

subsection \<open>Authentication\<close>

text \<open>
  C2 fails when the caller's parameters have an \<^verbatim>\<open>apikey\<close> entry: \<^verbatim>\<open>append\<close> adds it after
  the dispatcher's entry, and the request carries both values.
\<close>

theorem caller_apikey_is_sent_too:
  "map req_body
     (requests (make_request (host_answering 200 (Inr JNull)) secret_handle
        ''https://api.dbhub.io/v1/databases'' [(''apikey'', Str ''other''), (''live'', Boolean False)])) =
   [[(''apikey'', ''secret''), (''apikey'', ''other''), (''live'', ''false'')]] \<and>
   map (\<lambda>req. form_get_all (req_body req) ''apikey'')
     (requests (make_request (host_answering 200 (Inr JNull)) secret_handle
        ''https://api.dbhub.io/v1/databases'' [(''apikey'', Str ''other''), (''live'', Boolean False)])) =
   [[''secret'', ''other'']]"
  by (simp add: make_request_requests request_body_eq secret_handle_def form_get_all_def)

text \<open>
  C2, amended. Every request of every call has the dispatcher's \<^verbatim>\<open>apikey\<close> entry, with the
  key of the instance, as the first entry of its body, so the first \<^verbatim>\<open>apikey\<close> value (what
  \<^verbatim>\<open>FormData.get\<close> reads) is the configured key whatever the parameters are. The entries
  of the caller's parameters follow it in order, an \<^verbatim>\<open>apikey\<close> entry among them included.
\<close>

theorem apikey_is_first_entry:
  "(\<forall>req \<in> set (requests (invoke env this c)).
      (\<exists>entries. req_body req = (''apikey'', api_key this) # entries) \<and>
      form_get (req_body req) ''apikey'' = Some (api_key this)) \<and>
   requests (make_request env this url ps) =
     [\<lparr>req_url = url, req_method = ''POST'',
       req_body = (''apikey'', api_key this) # map (\<lambda>(k, v). (k, form_string v)) ps\<rparr>]"
proof -
  have "(\<exists>entries. req_body req = (''apikey'', api_key this) # entries) \<and>
      form_get (req_body req) ''apikey'' = Some (api_key this)"
    if "req \<in> set (requests (invoke env this c))" for req
  proof -
    from that invoke_cases [of env this c] obtain url' ps'
      where "invoke env this c = make_request env this url' ps'"
      by auto
    with that have "req_body req = request_body this ps'"
      by (simp add: make_request_requests)
    then show ?thesis
      by (simp add: request_body_eq form_get_def)
  qed
  then show ?thesis
    by (simp add: make_request_requests request_body_eq)
qed

theorem apikey_is_first_entry_witness:
  "map (\<lambda>req. form_get (req_body req) ''apikey'')
     (requests (invoke (host_answering 200 (Inr JNull)) secret_handle
        (Make_request ''https://api.dbhub.io/v1/databases''
           [(''apikey'', Str ''other''), (''live'', Boolean False)]))) =
   [Some ''secret'']"
proof -
  let ?c = "Make_request ''https://api.dbhub.io/v1/databases''
              [(''apikey'', Str ''other''), (''live'', Boolean False)]"
  let ?env = "host_answering 200 (Inr JNull)"
  obtain req where one: "requests (invoke ?env secret_handle ?c) = [req]"
    by (simp add: make_request_requests)
  then have "req \<in> set (requests (invoke ?env secret_handle ?c))"
    by simp
  with apikey_is_first_entry [of ?env secret_handle ?c]
  have "form_get (req_body req) ''apikey'' = Some (api_key secret_handle)"
    by blast
  with one show ?thesis
    by (simp add: secret_handle_def)
qed

subsection \<open>Failure\<close>

text \<open>
  C1 fails when the body of the error response is not JSON: \<^verbatim>\<open>response.json()\<close> rejects
  before the message with the status is built, and the call throws the parser's error.
  A 502 and a 404 response with the same HTML body throw the same error, and the status
  is no part of it.
\<close>

theorem unparseable_error_body_loses_status:
  "result (invoke (host_answering 502 (Inl html_body_error)) secret_handle (Get_databases None)) =
     Inl (Rejection (HostError ''SyntaxError'' ''Unexpected token < in JSON at position 0'' None)) \<and>
   result (invoke (host_answering 404 (Inl html_body_error)) secret_handle (Get_databases None)) =
     Inl (Rejection (HostError ''SyntaxError'' ''Unexpected token < in JSON at position 0'' None)) \<and>
   \<not> ok (\<lparr>status = 502, json = Inl html_body_error\<rparr> :: nat response) \<and>
   \<not> ok (\<lparr>status = 404, json = Inl html_body_error\<rparr> :: nat response)"
  by (simp add: get_databases_def make_request_def host_answering_def ok_def html_body_error_def)

text \<open>
  C1, amended. Every call whose SQL text, if it has one, is accepted by \<^verbatim>\<open>btoa\<close> makes
  exactly one request, and whenever the response to it has a status outside 200 to 299
  the call throws. When the body parses to a JSON value other than \<^verbatim>\<open>null\<close> and the
  template literal can print its \<^verbatim>\<open>error\<close> property, the call throws an \<^verbatim>\<open>Error\<close> with the
  message \<^verbatim>\<open>DBHub API error message: <error> [HTTP status: <status>]\<close>; for a body with a
  string \<^verbatim>\<open>error\<close> property, the message holds that string and the decimal status. In
  the other cases the call throws an error without the status: the parser's error as it
  is when the body is not JSON, the \<^verbatim>\<open>TypeError\<close> of the destructuring for the body
  \<^verbatim>\<open>null\<close>, and the \<^verbatim>\<open>TypeError\<close> of the template literal when the \<^verbatim>\<open>error\<close> property
  cannot be printed (an object with an own property \<^verbatim>\<open>toString\<close>, or an array that holds
  one).
\<close>

theorem non_2xx_throws:
  assumes "\<forall>owner db sql. c = Query owner db sql \<or> c = Execute owner db sql \<longrightarrow>
             list_all (\<lambda>u. u \<le> 0xFF) sql"
  shows "(\<exists>req. requests (invoke env this c) = [req]) \<and>
    (\<forall>req r. requests (invoke env this c) = [req] \<and> fetch env req = Resolved r \<and> \<not> ok r \<longrightarrow>
      (\<exists>x. result (invoke env this c) = Inl x) \<and>
      (\<forall>v error printed.
         json r = Inr v \<and> destructure_error v = Inr error \<and>
         template_value (number_to_string env) error = Inr printed \<longrightarrow>
         result (invoke env this c) =
           Inl (JsError (''DBHub API error message: '' @ printed @
                         '' [HTTP status: '' @ string_of_nat (status r) @ '']'') None)) \<and>
      (\<forall>kvs e. json r = Inr (JObj kvs) \<and> map_of kvs ''error'' = Some (JStr e) \<longrightarrow>
         (\<exists>m. result (invoke env this c) = Inl (JsError m None) \<and>
              m = ''DBHub API error message: '' @ e @
                  '' [HTTP status: '' @ string_of_nat (status r) @ '']'' \<and>
              sublist e m \<and> sublist (string_of_nat (status r)) m)) \<and>
      (\<forall>v error e.
         json r = Inr v \<and> destructure_error v = Inr error \<and>
         template_value (number_to_string env) error = Inl e \<longrightarrow>
         result (invoke env this c) = Inl e) \<and>
      (\<forall>e. json r = Inl e \<longrightarrow> result (invoke env this c) = Inl (Rejection e)) \<and>
      (json r = Inr JNull \<longrightarrow> result (invoke env this c) = Inl DestructureTypeError))"
proof (rule conjI)
  show "\<exists>req. requests (invoke env this c) = [req]"
    by (rule invoke_one_request [OF assms])
next
  show "\<forall>req r. requests (invoke env this c) = [req] \<and> fetch env req = Resolved r \<and> \<not> ok r \<longrightarrow>
      (\<exists>x. result (invoke env this c) = Inl x) \<and>
      (\<forall>v error printed.
         json r = Inr v \<and> destructure_error v = Inr error \<and>
         template_value (number_to_string env) error = Inr printed \<longrightarrow>
         result (invoke env this c) =
           Inl (JsError (''DBHub API error message: '' @ printed @
                         '' [HTTP status: '' @ string_of_nat (status r) @ '']'') None)) \<and>
      (\<forall>kvs e. json r = Inr (JObj kvs) \<and> map_of kvs ''error'' = Some (JStr e) \<longrightarrow>
         (\<exists>m. result (invoke env this c) = Inl (JsError m None) \<and>
              m = ''DBHub API error message: '' @ e @
                  '' [HTTP status: '' @ string_of_nat (status r) @ '']'' \<and>
              sublist e m \<and> sublist (string_of_nat (status r)) m)) \<and>
      (\<forall>v error e.
         json r = Inr v \<and> destructure_error v = Inr error \<and>
         template_value (number_to_string env) error = Inl e \<longrightarrow>
         result (invoke env this c) = Inl e) \<and>
      (\<forall>e. json r = Inl e \<longrightarrow> result (invoke env this c) = Inl (Rejection e)) \<and>
      (json r = Inr JNull \<longrightarrow> result (invoke env this c) = Inl DestructureTypeError)"
  proof (rule allI, rule allI, rule impI)
    fix req r
    assume h: "requests (invoke env this c) = [req] \<and> fetch env req = Resolved r \<and> \<not> ok r"
    then have 1: "requests (invoke env this c) = [req]"
      and 2: "fetch env req = Resolved r" and 3: "\<not> ok r"
      by simp_all
    show "(\<exists>x. result (invoke env this c) = Inl x) \<and>
      (\<forall>v error printed.
         json r = Inr v \<and> destructure_error v = Inr error \<and>
         template_value (number_to_string env) error = Inr printed \<longrightarrow>
         result (invoke env this c) =
           Inl (JsError (''DBHub API error message: '' @ printed @
                         '' [HTTP status: '' @ string_of_nat (status r) @ '']'') None)) \<and>
      (\<forall>kvs e. json r = Inr (JObj kvs) \<and> map_of kvs ''error'' = Some (JStr e) \<longrightarrow>
         (\<exists>m. result (invoke env this c) = Inl (JsError m None) \<and>
              m = ''DBHub API error message: '' @ e @
                  '' [HTTP status: '' @ string_of_nat (status r) @ '']'' \<and>
              sublist e m \<and> sublist (string_of_nat (status r)) m)) \<and>
      (\<forall>v error e.
         json r = Inr v \<and> destructure_error v = Inr error \<and>
         template_value (number_to_string env) error = Inl e \<longrightarrow>
         result (invoke env this c) = Inl e) \<and>
      (\<forall>e. json r = Inl e \<longrightarrow> result (invoke env this c) = Inl (Rejection e)) \<and>
      (json r = Inr JNull \<longrightarrow> result (invoke env this c) = Inl DestructureTypeError)"
      by (rule non_2xx_cases [OF 1 2 3])
  qed
qed

theorem non_2xx_throws_witness:
  "length (requests (invoke (host_answering 404 (Inr (JObj [(''error'', JStr ''table not found'')])))
             secret_handle (Get_columns ''owner'' ''db'' ''t''))) = 1 \<and>
   \<not> ok (\<lparr>status = 404, json = Inr (JObj [(''error'', JStr ''table not found'')])\<rparr> :: nat response) \<and>
   result (invoke (host_answering 404 (Inr (JObj [(''error'', JStr ''table not found'')])))
             secret_handle (Get_columns ''owner'' ''db'' ''t'')) =
     Inl (JsError ''DBHub API error message: table not found [HTTP status: 404]'' None) \<and>
   result (invoke (host_answering 404 (Inr (JObj [(''error'', JObj [(''toString'', JNum 1)])])))
             secret_handle (Get_columns ''owner'' ''db'' ''t'')) =
     Inl ToPrimitiveTypeError"
proof -
  let ?c = "Get_columns ''owner'' ''db'' ''t''"
  let ?b1 = "Inr (JObj [(''error'', JStr ''table not found'')]) :: host_error + nat json"
  let ?e1 = "host_answering 404 ?b1"
  let ?r1 = "\<lparr>status = 404, json = ?b1\<rparr>"
  let ?b2 = "Inr (JObj [(''error'', JObj [(''toString'', JNum 1)])]) :: host_error + nat json"
  let ?e2 = "host_answering 404 ?b2"
  let ?r2 = "\<lparr>status = 404, json = ?b2\<rparr>"
  have h: "\<forall>owner db sql. ?c = Query owner db sql \<or> ?c = Execute owner db sql \<longrightarrow>
             list_all (\<lambda>u. u \<le> 0xFF) sql"
    by simp
  note t1 = non_2xx_throws [OF h, of ?e1 secret_handle]
  note t2 = non_2xx_throws [OF h, of ?e2 secret_handle]
  from t1 obtain req1 where q1: "requests (invoke ?e1 secret_handle ?c) = [req1]"
    by (elim conjE exE)
  from t2 obtain req2 where q2: "requests (invoke ?e2 secret_handle ?c) = [req2]"
    by (elim conjE exE)
  have n1: "\<not> ok ?r1" and n2: "\<not> ok ?r2"
    by (simp_all add: ok_def)
  have p1: "requests (invoke ?e1 secret_handle ?c) = [req1] \<and> fetch ?e1 req1 = Resolved ?r1 \<and> \<not> ok ?r1"
    using q1 n1 by (simp add: host_answering_def)
  have p2: "requests (invoke ?e2 secret_handle ?c) = [req2] \<and> fetch ?e2 req2 = Resolved ?r2 \<and> \<not> ok ?r2"
    using q2 n2 by (simp add: host_answering_def)
  from t1 have "\<forall>req r. requests (invoke ?e1 secret_handle ?c) = [req] \<and> fetch ?e1 req = Resolved r \<and> \<not> ok r \<longrightarrow>
      (\<exists>x. result (invoke ?e1 secret_handle ?c) = Inl x) \<and>
      (\<forall>v error printed.
         json r = Inr v \<and> destructure_error v = Inr error \<and>
         template_value (number_to_string ?e1) error = Inr printed \<longrightarrow>
         result (invoke ?e1 secret_handle ?c) =
           Inl (JsError (''DBHub API error message: '' @ printed @
                         '' [HTTP status: '' @ string_of_nat (status r) @ '']'') None)) \<and>
      (\<forall>kvs e. json r = Inr (JObj kvs) \<and> map_of kvs ''error'' = Some (JStr e) \<longrightarrow>
         (\<exists>m. result (invoke ?e1 secret_handle ?c) = Inl (JsError m None) \<and>
              m = ''DBHub API error message: '' @ e @
                  '' [HTTP status: '' @ string_of_nat (status r) @ '']'' \<and>
              sublist e m \<and> sublist (string_of_nat (status r)) m)) \<and>
      (\<forall>v error e.
         json r = Inr v \<and> destructure_error v = Inr error \<and>
         template_value (number_to_string ?e1) error = Inl e \<longrightarrow>
         result (invoke ?e1 secret_handle ?c) = Inl e) \<and>
      (\<forall>e. json r = Inl e \<longrightarrow> result (invoke ?e1 secret_handle ?c) = Inl (Rejection e)) \<and>
      (json r = Inr JNull \<longrightarrow> result (invoke ?e1 secret_handle ?c) = Inl DestructureTypeError)"
    by (elim conjE)
  from this [rule_format, OF p1]
  have "\<forall>v error printed.
         json ?r1 = Inr v \<and> destructure_error v = Inr error \<and>
         template_value (number_to_string ?e1) error = Inr printed \<longrightarrow>
         result (invoke ?e1 secret_handle ?c) =
           Inl (JsError (''DBHub API error message: '' @ printed @
                         '' [HTTP status: '' @ string_of_nat (status ?r1) @ '']'') None)"
    by (elim conjE)
  from this [rule_format, of "JObj [(''error'', JStr ''table not found'')]"
      "Some (JStr ''table not found'')" "''table not found''"]
  have a: "result (invoke ?e1 secret_handle ?c) =
     Inl (JsError ''DBHub API error message: table not found [HTTP status: 404]'' None)"
    by (simp add: template_value_def string_of_nat_404)
  from t2 have "\<forall>req r. requests (invoke ?e2 secret_handle ?c) = [req] \<and> fetch ?e2 req = Resolved r \<and> \<not> ok r \<longrightarrow>
      (\<exists>x. result (invoke ?e2 secret_handle ?c) = Inl x) \<and>
      (\<forall>v error printed.
         json r = Inr v \<and> destructure_error v = Inr error \<and>
         template_value (number_to_string ?e2) error = Inr printed \<longrightarrow>
         result (invoke ?e2 secret_handle ?c) =
           Inl (JsError (''DBHub API error message: '' @ printed @
                         '' [HTTP status: '' @ string_of_nat (status r) @ '']'') None)) \<and>
      (\<forall>kvs e. json r = Inr (JObj kvs) \<and> map_of kvs ''error'' = Some (JStr e) \<longrightarrow>
         (\<exists>m. result (invoke ?e2 secret_handle ?c) = Inl (JsError m None) \<and>
              m = ''DBHub API error message: '' @ e @
                  '' [HTTP status: '' @ string_of_nat (status r) @ '']'' \<and>
              sublist e m \<and> sublist (string_of_nat (status r)) m)) \<and>
      (\<forall>v error e.
         json r = Inr v \<and> destructure_error v = Inr error \<and>
         template_value (number_to_string ?e2) error = Inl e \<longrightarrow>
         result (invoke ?e2 secret_handle ?c) = Inl e) \<and>
      (\<forall>e. json r = Inl e \<longrightarrow> result (invoke ?e2 secret_handle ?c) = Inl (Rejection e)) \<and>
      (json r = Inr JNull \<longrightarrow> result (invoke ?e2 secret_handle ?c) = Inl DestructureTypeError)"
    by (elim conjE)
  from this [rule_format, OF p2]
  have "\<forall>v error e.
         json ?r2 = Inr v \<and> destructure_error v = Inr error \<and>
         template_value (number_to_string ?e2) error = Inl e \<longrightarrow>
         result (invoke ?e2 secret_handle ?c) = Inl e"
    by (elim conjE)
  from this [rule_format, of "JObj [(''error'', JObj [(''toString'', JNum 1)])]"
      "Some (JObj [(''toString'', JNum 1)])" ToPrimitiveTypeError]
  have b: "result (invoke ?e2 secret_handle ?c) = Inl ToPrimitiveTypeError"
    by (simp add: template_value_def)
  from q1 have l: "length (requests (invoke ?e1 secret_handle ?c)) = 1"
    by simp
  from l n1 a b show ?thesis
    by (intro conjI)
qed

text \<open>
  C3. When \<^verbatim>\<open>fetch\<close> rejects, the call throws \<^verbatim>\<open>new Error("Fetch failed!", error)\<close>. The
  caught error is passed as the options object, not as \<^verbatim>\<open>{cause: error}\<close>: the thrown
  error has a cause only when the caught error has a \<^verbatim>\<open>cause\<close> property of its own, and
  then it is that property; the caught error itself is never the cause. With a
  \<^verbatim>\<open>TypeError\<close> that has no cause (first run) the thrown error has none; with one whose
  cause is a socket error (second run) the thrown error has the socket error as cause.
  The thrown value is a plain \<^verbatim>\<open>Error\<close>, as the error of a rejected request is; the two
  always differ in their message.
\<close>

theorem transport_failure_cause_is_lost:
  "result (invoke (host_failing (HostError ''TypeError'' ''Failed to fetch'' None))
             secret_handle (Get_databases None)) =
     Inl (JsError ''Fetch failed!'' None) \<and>
   result (invoke (host_failing (HostError ''TypeError'' ''fetch failed''
                     (Some (HostError ''Error'' ''connect ECONNREFUSED 127.0.0.1:443'' None))))
             secret_handle (Get_databases None)) =
     Inl (JsError ''Fetch failed!''
            (Some (HostError ''Error'' ''connect ECONNREFUSED 127.0.0.1:443'' None))) \<and>
   result (make_request (env\<lparr>fetch := \<lambda>req. Rejected e\<rparr>) this url ps) =
     Inl (JsError ''Fetch failed!'' (host_cause e)) \<and>
   host_cause e \<noteq> Some e \<and>
   JsError ''Fetch failed!'' (host_cause e) \<noteq> JsError (api_error_message printed st) None"
  by (simp add: get_databases_def make_request_rejected host_failing_def host_cause_neq
      api_error_message_neq)

end
